theory Spec2Isabelle
  imports Complex_Main
begin

section \<open>Data model\<close>

text \<open>
  The source is \<^verbatim>\<open>varbvs-R/src/varbvsnormupdate_rcpp.cpp\<close>: the logistic function
  \<^verbatim>\<open>sigmoidcpp\<close> and one sweep of coordinate-ascent updates, \<^verbatim>\<open>varbvsnormupdate_cpp\<close>.

  A C++ \<^verbatim>\<open>double\<close> is modelled as a \<^typ>\<open>real\<close>: arithmetic is exact, rounding and
  overflow are not modelled. Where IEEE arithmetic would leave the finite numbers
  from finite operands (a zero divisor, a logarithm of a non-positive number) the model
  stops with a fault instead of using the value HOL gives to \<open>x / 0\<close> or \<open>ln 0\<close>.
  An index outside its vector (unchecked in C++) is a fault as well.
\<close>

datatype fault = OutOfBounds | DivByZero | LogDomain

definition and_then :: "fault + 'a \<Rightarrow> ('a \<Rightarrow> fault + 'b) \<Rightarrow> fault + 'b" where
  "and_then m f = (case m of Inl e \<Rightarrow> Inl e | Inr v \<Rightarrow> f v)"

text \<open>\<^verbatim>\<open>v[j]\<close> with an \<^verbatim>\<open>int\<close> index \<open>j\<close>.\<close>

definition elem_at :: "real list \<Rightarrow> int \<Rightarrow> fault + real" where
  "elem_at v j = (if 0 \<le> j \<and> j < int (length v) then Inr (v ! nat j) else Inl OutOfBounds)"

definition fdiv :: "real \<Rightarrow> real \<Rightarrow> fault + real" where
  "fdiv x y = (if y = 0 then Inl DivByZero else Inr (x / y))"

definition flog :: "real \<Rightarrow> fault + real" where
  "flog x = (if 0 < x then Inr (ln x) else Inl LogDomain)"

text \<open>
  A dense matrix in column-major storage (\<^verbatim>\<open>NumericMatrix\<close>; \<^verbatim>\<open>DoubleMatrix\<close> in
  \<^verbatim>\<open>doublematrixmex.h\<close> has the same three fields \<^verbatim>\<open>nr\<close>, \<^verbatim>\<open>nc\<close>, \<^verbatim>\<open>elems\<close>).
\<close>

record NumericMatrix =
  nrow :: nat
  ncol :: nat
  elems :: "real list"

text \<open>
  \<^verbatim>\<open>X.column(j)\<close>: the \<open>nrow\<close> consecutive entries that start at \<open>j * nrow\<close>
  (\<^verbatim>\<open>getConstDoubleColumn\<close> in the header describes the same view). A column index
  outside the matrix is a fault.
\<close>

definition column :: "NumericMatrix \<Rightarrow> int \<Rightarrow> fault + real list" where
  "column X j =
     (if 0 \<le> j \<and> j < int (ncol X)
      then Inr (take (nrow X) (drop (nat j * nrow X) (elems X)))
      else Inl OutOfBounds)"

text \<open>
  The three vectors the pass mutates. \<^verbatim>\<open>alpha\<close> and \<^verbatim>\<open>mu\<close> are passed by reference;
  \<^verbatim>\<open>Xr\<close> is a \<^verbatim>\<open>NumericVector\<close> passed by value, which is a handle on the caller's
  storage, and the assignment of a vector expression of the same length to it writes
  that storage element by element. The model therefore returns all three to the caller.
\<close>

record posterior =
  alpha :: "real list"
  mu :: "real list"
  Xr :: "real list"

section \<open>The source functions\<close>

text \<open>\<^verbatim>\<open>double sigmoidcpp(double x) { return (1 / (1 + exp(-x))); }\<close>\<close>

definition sigmoidcpp :: "real \<Rightarrow> fault + real" where
  "sigmoidcpp x = fdiv 1 (1 + exp (- x))"

text \<open>\<^verbatim>\<open>sum(c * v)\<close>: element-wise product of two vectors, summed.\<close>

definition sum_times :: "real list \<Rightarrow> real list \<Rightarrow> fault + real" where
  "sum_times c v =
     (if length c = length v then Inr (sum_list (map2 (*) c v)) else Inl OutOfBounds)"

text \<open>\<^verbatim>\<open>v + a * c\<close>: a vector plus a scalar multiple of a vector.\<close>

definition plus_scaled :: "real list \<Rightarrow> real \<Rightarrow> real list \<Rightarrow> fault + real list" where
  "plus_scaled v a c =
     (if length c = length v then Inr (map2 (+) v (map ((*) a) c)) else Inl OutOfBounds)"

text \<open>Line 46: \<^verbatim>\<open>double s = sa * sigma / (sa * d[j] + 1);\<close>\<close>

definition posterior_variance :: "real \<Rightarrow> real \<Rightarrow> real \<Rightarrow> fault + real" where
  "posterior_variance sa sigma dj = fdiv (sa * sigma) (sa * dj + 1)"

text \<open>
  The body of the loop, lines 43 to 56, for the entry \<open>j\<close> of the order vector \<^verbatim>\<open>i\<close>.
\<close>

definition loop_body ::
  "NumericMatrix \<Rightarrow> real \<Rightarrow> real \<Rightarrow> real list \<Rightarrow> real list \<Rightarrow> real list \<Rightarrow>
   posterior \<Rightarrow> int \<Rightarrow> fault + posterior" where
  "loop_body X sigma sa logodds xy d st j =
     and_then (elem_at d j) (\<lambda>dj.
     and_then (posterior_variance sa sigma dj) (\<lambda>s.
     and_then (elem_at (alpha st) j) (\<lambda>aj.
     and_then (elem_at (mu st) j) (\<lambda>mj.
     (let r = aj * mj in
     and_then (fdiv s sigma) (\<lambda>q.
     and_then (elem_at xy j) (\<lambda>xyj.
     and_then (column X j) (\<lambda>col.
     and_then (sum_times col (Xr st)) (\<lambda>dp.
     (let mu_j = q * (xyj + dj * r - dp) in
     and_then (elem_at logodds j) (\<lambda>lo.
     and_then (fdiv s (sa * sigma)) (\<lambda>ratio.
     and_then (flog ratio) (\<lambda>lg.
     and_then (fdiv (mu_j ^ 2) s) (\<lambda>m2s.
     and_then (sigmoidcpp (lo + (lg + m2s) / 2)) (\<lambda>alpha_j.
     and_then (plus_scaled (Xr st) (alpha_j * mu_j - r) col) (\<lambda>Xr'.
     Inr \<lparr>alpha = (alpha st)[nat j := alpha_j],
          mu = (mu st)[nat j := mu_j],
          Xr = Xr'\<rparr>))))))))))))))))"

text \<open>
  \<^verbatim>\<open>for (int index = 0; index < i.size(); index++)\<close>: the entries of \<^verbatim>\<open>i\<close> in sequence,
  each step on the state the previous one left.
\<close>

fun varbvsnormupdate_cpp ::
  "NumericMatrix \<Rightarrow> real \<Rightarrow> real \<Rightarrow> real list \<Rightarrow> real list \<Rightarrow> real list \<Rightarrow>
   posterior \<Rightarrow> int list \<Rightarrow> fault + posterior" where
  "varbvsnormupdate_cpp X sigma sa logodds xy d st [] = Inr st"
| "varbvsnormupdate_cpp X sigma sa logodds xy d st (j # js) =
     and_then (loop_body X sigma sa logodds xy d st j)
       (\<lambda>st'. varbvsnormupdate_cpp X sigma sa logodds xy d st' js)"

section \<open>The specification's vocabulary\<close>

text \<open>Section 4.1: the output of Sigmoid is \<open>1 / (1 + exp(-x))\<close>.\<close>

definition Sigmoid :: "real \<Rightarrow> real" where
  "Sigmoid x = 1 / (1 + exp (- x))"

text \<open>Entry \<open>(i, j)\<close> of the design matrix and its column \<open>j\<close>, by index.\<close>

definition entry :: "NumericMatrix \<Rightarrow> nat \<Rightarrow> nat \<Rightarrow> real" where
  "entry X i j = elems X ! (j * nrow X + i)"

definition column_j :: "NumericMatrix \<Rightarrow> nat \<Rightarrow> real list" where
  "column_j X j = map (\<lambda>i. entry X i j) [0..<nrow X]"

definition dot :: "real list \<Rightarrow> real list \<Rightarrow> real" where
  "dot u v = (\<Sum>i<length u. u ! i * v ! i)"

text \<open>\<open>alpha \<odot> mu\<close> and \<open>DesignMatrix \<cdot> v\<close>.\<close>

definition hadamard :: "real list \<Rightarrow> real list \<Rightarrow> real list" where
  "hadamard a m = map (\<lambda>k. a ! k * m ! k) [0..<length a]"

definition matvec :: "NumericMatrix \<Rightarrow> real list \<Rightarrow> real list" where
  "matvec X v = map (\<lambda>i. \<Sum>k<ncol X. entry X i k * v ! k) [0..<nrow X]"

text \<open>
  A valid input: the conditions section 4.2 lists for validation (positive \<open>sigma\<close> and
  \<open>sa\<close>, every vector of the length the matrix fixes, every entry of the order inside
  \<open>[0, p)\<close>) and every \<open>d\<^sub>j\<close> non-negative, which section 3 requires of a legal \<open>d\<close>. What
  relates the values of different arguments is kept apart: \<open>gram_diag\<close> and \<open>fitted\<close>.
\<close>

definition valid_input ::
  "NumericMatrix \<Rightarrow> real \<Rightarrow> real \<Rightarrow> real list \<Rightarrow> real list \<Rightarrow> real list \<Rightarrow>
   posterior \<Rightarrow> int list \<Rightarrow> bool" where
  "valid_input X sigma sa logodds xy d st order \<longleftrightarrow>
     0 < sigma \<and> 0 < sa \<and>
     length xy = ncol X \<and> length d = ncol X \<and> length (alpha st) = ncol X \<and>
     length (mu st) = ncol X \<and> length logodds = ncol X \<and>
     length (Xr st) = nrow X \<and> length (elems X) = nrow X * ncol X \<and>
     list_all (\<lambda>j. 0 \<le> j \<and> j < int (ncol X)) order \<and>
     list_all (\<lambda>x. 0 \<le> x) d"

text \<open>\<open>d\<close> is the sum of squares of each column (section 3; \<^verbatim>\<open>d = diag(t(X) %*% X)\<close>).\<close>

definition gram_diag :: "NumericMatrix \<Rightarrow> real list \<Rightarrow> bool" where
  "gram_diag X d \<longleftrightarrow> list_all (\<lambda>j. d ! j = dot (column_j X j) (column_j X j)) [0..<ncol X]"

text \<open>\<open>Xr\<close> is the fitted value \<open>DesignMatrix \<cdot> (alpha \<odot> mu)\<close>.\<close>

definition fitted :: "NumericMatrix \<Rightarrow> posterior \<Rightarrow> bool" where
  "fitted X st \<longleftrightarrow> Xr st = matvec X (hadamard (alpha st) (mu st))"

text \<open>
  One step as section 4.2 words it, steps 1 to 6, and the pass as the steps taken in
  the sequence of UpdateOrder.
\<close>

definition CoordinateUpdateStep ::
  "NumericMatrix \<Rightarrow> real \<Rightarrow> real \<Rightarrow> real list \<Rightarrow> real list \<Rightarrow> real list \<Rightarrow>
   posterior \<Rightarrow> nat \<Rightarrow> posterior" where
  "CoordinateUpdateStep X sigma sa logodds xy d st j =
     (let s = sa * sigma / (sa * d ! j + 1);
          r = alpha st ! j * mu st ! j;
          partial = xy ! j + d ! j * r - dot (column_j X j) (Xr st);
          mu_new = (s / sigma) * partial;
          alpha_new = Sigmoid (logodds ! j + 0.5 * (ln (s / (sa * sigma)) + mu_new\<^sup>2 / s))
      in \<lparr>alpha = (alpha st)[j := alpha_new],
          mu = (mu st)[j := mu_new],
          Xr = map (\<lambda>i. Xr st ! i + (alpha_new * mu_new - r) * column_j X j ! i)
                 [0..<length (Xr st)]\<rparr>)"

definition CoordinateUpdatePass ::
  "NumericMatrix \<Rightarrow> real \<Rightarrow> real \<Rightarrow> real list \<Rightarrow> real list \<Rightarrow> real list \<Rightarrow>
   posterior \<Rightarrow> int list \<Rightarrow> posterior" where
  "CoordinateUpdatePass X sigma sa logodds xy d st order =
     foldl (\<lambda>st j. CoordinateUpdateStep X sigma sa logodds xy d st (nat j)) st order"

section \<open>Concrete inputs\<close>

text \<open>The worked scenario of section 8: one observation, one predictor.\<close>

definition X_one :: NumericMatrix where
  "X_one = \<lparr>nrow = 1, ncol = 1, elems = [2]\<rparr>"

definition zero_one :: posterior where
  "zero_one = \<lparr>alpha = [0], mu = [0], Xr = [0]\<rparr>"

text \<open>Two observations, two predictors: the columns are \<open>(1, 1)\<close> and \<open>(0, 1)\<close>.\<close>

definition X_two :: NumericMatrix where
  "X_two = \<lparr>nrow = 2, ncol = 2, elems = [1, 1, 0, 1]\<rparr>"

definition start_two :: posterior where
  "start_two = \<lparr>alpha = [1/2, 1], mu = [2, 3], Xr = [1, 4]\<rparr>"

section \<open>Basic facts\<close>

lemma and_then_Inr [simp]: "and_then (Inr v) f = f v"
  by (simp add: and_then_def)

lemma and_then_Inl [simp]: "and_then (Inl e) f = Inl e"
  by (simp add: and_then_def)

lemma sigmoid_denominator_pos: "0 < 1 + exp (- x :: real)"
  by (simp add: add_pos_pos)

lemma sigmoidcpp_Sigmoid: "sigmoidcpp x = Inr (Sigmoid x)"
  using sigmoid_denominator_pos [of x] by (simp add: sigmoidcpp_def fdiv_def Sigmoid_def)

section \<open>The loop body computes the step of section 4.2\<close>

lemma column_view:
  assumes "j < ncol X" and "length (elems X) = nrow X * ncol X"
  shows "take (nrow X) (drop (j * nrow X) (elems X)) = column_j X j"
proof (rule nth_equalityI)
  have "j * nrow X + nrow X \<le> nrow X * ncol X"
  proof -
    have "Suc j \<le> ncol X" using assms(1) by simp
    then have "nrow X * Suc j \<le> nrow X * ncol X" by (rule mult_le_mono2)
    then show ?thesis by (simp add: mult.commute)
  qed
  then show len: "length (take (nrow X) (drop (j * nrow X) (elems X))) = length (column_j X j)"
    using assms(2) by (simp add: column_j_def)
  fix i
  assume "i < length (take (nrow X) (drop (j * nrow X) (elems X)))"
  then have i: "i < nrow X" by simp
  have "j * nrow X \<le> j * nrow X + nrow X" by simp
  also note \<open>j * nrow X + nrow X \<le> nrow X * ncol X\<close>
  finally have "j * nrow X \<le> length (elems X)"
    unfolding assms(2) .
  then have "drop (j * nrow X) (elems X) ! i = elems X ! (j * nrow X + i)"
    by (rule nth_drop)
  with i show "take (nrow X) (drop (j * nrow X) (elems X)) ! i = column_j X j ! i"
    by (simp add: column_j_def entry_def)
qed

lemma sum_list_map2_dot:
  assumes "length u = length v"
  shows "sum_list (map2 (*) u v) = dot u v"
proof -
  have "sum_list (map2 (*) u v) = (\<Sum>i = 0..<length (map2 (*) u v). map2 (*) u v ! i)"
    by (rule sum_list_sum_nth)
  also have "\<dots> = (\<Sum>i = 0..<length u. u ! i * v ! i)"
    using assms by simp
  finally show ?thesis by (simp add: dot_def atLeast0LessThan)
qed

lemma map2_plus_scaled:
  assumes "length c = length v"
  shows "map2 (+) v (map ((*) a) c) = map (\<lambda>i. v ! i + a * c ! i) [0..<length v]"
  using assms by (intro nth_equalityI) simp_all

lemma length_column_j [simp]: "length (column_j X j) = nrow X"
  by (simp add: column_j_def)

lemma loop_body_step:
  assumes j: "0 \<le> j" "j < int (ncol X)"
    and len: "length xy = ncol X" "length d = ncol X" "length (alpha st) = ncol X"
      "length (mu st) = ncol X" "length logodds = ncol X"
      "length (Xr st) = nrow X" "length (elems X) = nrow X * ncol X"
    and nz: "sigma \<noteq> 0" "sa \<noteq> 0" "0 < sa * d ! nat j + 1"
  shows "loop_body X sigma sa logodds xy d st j =
           Inr (CoordinateUpdateStep X sigma sa logodds xy d st (nat j))"
proof -
  have jn: "nat j < ncol X" using j by simp
  have col: "column X j = Inr (column_j X (nat j))"
    using j jn len(7) by (simp add: column_def column_view)
  have s_nz: "sa * sigma / (sa * d ! nat j + 1) \<noteq> 0"
    using nz by simp
  have ratio: "0 < sa * sigma / (sa * d ! nat j + 1) / (sa * sigma)"
    using nz by simp
  show ?thesis
    unfolding loop_body_def CoordinateUpdateStep_def
    using j len nz s_nz ratio
    by (simp add: elem_at_def posterior_variance_def fdiv_def flog_def col sum_times_def
        plus_scaled_def sigmoidcpp_Sigmoid sum_list_map2_dot map2_plus_scaled Let_def)
qed

section \<open>The pass on inputs that keep the arithmetic finite\<close>

lemma step_lengths [simp]:
  "length (alpha (CoordinateUpdateStep X sigma sa logodds xy d st j)) = length (alpha st)"
  "length (mu (CoordinateUpdateStep X sigma sa logodds xy d st j)) = length (mu st)"
  "length (Xr (CoordinateUpdateStep X sigma sa logodds xy d st j)) = length (Xr st)"
  by (simp_all add: CoordinateUpdateStep_def Let_def)

lemma pass_lengths [simp]:
  "length (alpha (CoordinateUpdatePass X sigma sa logodds xy d st i)) = length (alpha st)"
  "length (mu (CoordinateUpdatePass X sigma sa logodds xy d st i)) = length (mu st)"
  "length (Xr (CoordinateUpdatePass X sigma sa logodds xy d st i)) = length (Xr st)"
  unfolding CoordinateUpdatePass_def
  by (induction i arbitrary: st) simp_all

lemma pass_Nil [simp]: "CoordinateUpdatePass X sigma sa logodds xy d st [] = st"
  by (simp add: CoordinateUpdatePass_def)

lemma pass_Cons [simp]:
  "CoordinateUpdatePass X sigma sa logodds xy d st (j # js) =
     CoordinateUpdatePass X sigma sa logodds xy d
       (CoordinateUpdateStep X sigma sa logodds xy d st (nat j)) js"
  by (simp add: CoordinateUpdatePass_def)

lemma pass_runs:
  assumes "sigma \<noteq> 0" "sa \<noteq> 0"
    and "length xy = ncol X" "length d = ncol X" "length (alpha st) = ncol X"
      "length (mu st) = ncol X" "length logodds = ncol X"
      "length (Xr st) = nrow X" "length (elems X) = nrow X * ncol X"
    and "list_all (\<lambda>j. 0 \<le> j \<and> j < int (ncol X) \<and> 0 < sa * d ! nat j + 1) i"
  shows "varbvsnormupdate_cpp X sigma sa logodds xy d st i =
           Inr (CoordinateUpdatePass X sigma sa logodds xy d st i)"
  using assms
proof (induction i arbitrary: st)
  case Nil
  show ?case by simp
next
  case (Cons j js)
  from Cons.prems have body: "loop_body X sigma sa logodds xy d st j =
      Inr (CoordinateUpdateStep X sigma sa logodds xy d st (nat j))"
    by (intro loop_body_step) simp_all
  from Cons.prems have "varbvsnormupdate_cpp X sigma sa logodds xy d
      (CoordinateUpdateStep X sigma sa logodds xy d st (nat j)) js =
      Inr (CoordinateUpdatePass X sigma sa logodds xy d
        (CoordinateUpdateStep X sigma sa logodds xy d st (nat j)) js)"
    by (intro Cons.IH) simp_all
  with body show ?case by simp
qed

lemma valid_input_guard:
  assumes "valid_input X sigma sa logodds xy d st i"
  shows "list_all (\<lambda>j. 0 \<le> j \<and> j < int (ncol X) \<and> 0 < sa * d ! nat j + 1) i"
proof -
  have "0 < sa * d ! nat j + 1" if "0 \<le> j" "j < int (ncol X)" for j
  proof -
    from that assms have "nat j < length d" by (simp add: valid_input_def)
    then have "d ! nat j \<in> set d" by simp
    with assms have "0 \<le> d ! nat j" by (simp add: valid_input_def list_all_iff)
    moreover from assms have "0 < sa" by (simp add: valid_input_def)
    ultimately have "0 \<le> sa * d ! nat j" by simp
    then show ?thesis by simp
  qed
  with assms show ?thesis by (auto simp: valid_input_def list_all_iff)
qed

lemma valid_input_runs:
  assumes "valid_input X sigma sa logodds xy d st i"
  shows "varbvsnormupdate_cpp X sigma sa logodds xy d st i =
           Inr (CoordinateUpdatePass X sigma sa logodds xy d st i)"
proof (rule pass_runs)
  show "list_all (\<lambda>j. 0 \<le> j \<and> j < int (ncol X) \<and> 0 < sa * d ! nat j + 1) i"
    using assms by (rule valid_input_guard)
qed (use assms in \<open>simp_all add: valid_input_def\<close>)

lemma hadamard_nth: "k < length a \<Longrightarrow> hadamard a m ! k = a ! k * m ! k"
  by (simp add: hadamard_def)

lemma length_hadamard [simp]: "length (hadamard a m) = length a"
  by (simp add: hadamard_def)

lemma step_fitted:
  assumes j: "j < ncol X"
    and len: "length (alpha st) = ncol X" "length (mu st) = ncol X" "length (Xr st) = nrow X"
    and fit: "fitted X st"
  shows "fitted X (CoordinateUpdateStep X sigma sa logodds xy d st j)"
proof -
  define st' where "st' = CoordinateUpdateStep X sigma sa logodds xy d st j"
  define c where "c = alpha st' ! j * mu st' ! j - alpha st ! j * mu st ! j"
  have alpha': "alpha st' = (alpha st)[j := alpha st' ! j]"
    and mu': "mu st' = (mu st)[j := mu st' ! j]"
    using j len by (simp_all add: st'_def CoordinateUpdateStep_def Let_def)
  have Xr': "Xr st' = map (\<lambda>i. Xr st ! i + c * entry X i j) [0..<nrow X]"
    using j len by (simp add: st'_def c_def CoordinateUpdateStep_def Let_def column_j_def)
  have h: "hadamard (alpha st') (mu st') ! k =
      hadamard (alpha st) (mu st) ! k + (if k = j then c else 0)" if "k < ncol X" for k
  proof -
    have "alpha st' ! k * mu st' ! k = alpha st ! k * mu st ! k + (if k = j then c else 0)"
    proof (cases "k = j")
      case True
      then show ?thesis by (simp add: c_def)
    next
      case False
      from False have "alpha st' ! k = alpha st ! k"
        by (subst alpha') simp
      moreover from False have "mu st' ! k = mu st ! k"
        by (subst mu') simp
      ultimately show ?thesis using False by simp
    qed
    moreover have "length (alpha st') = ncol X"
      using len by (simp add: st'_def)
    ultimately show ?thesis using that len by (simp add: hadamard_nth)
  qed
  have row: "(\<Sum>k<ncol X. entry X i k * hadamard (alpha st') (mu st') ! k) =
      Xr st ! i + c * entry X i j" if "i < nrow X" for i
  proof -
    have "(\<Sum>k<ncol X. entry X i k * hadamard (alpha st') (mu st') ! k) =
        (\<Sum>k<ncol X. entry X i k * hadamard (alpha st) (mu st) ! k +
          (if k = j then entry X i k * c else 0))"
      by (rule sum.cong) (simp_all add: h algebra_simps)
    also have "\<dots> = (\<Sum>k<ncol X. entry X i k * hadamard (alpha st) (mu st) ! k) +
        (\<Sum>k<ncol X. if k = j then entry X i k * c else 0)"
      by (rule sum.distrib)
    also have "(\<Sum>k<ncol X. if k = j then entry X i k * c else 0) = entry X i j * c"
      using j by (simp add: sum.delta)
    also have "(\<Sum>k<ncol X. entry X i k * hadamard (alpha st) (mu st) ! k) = Xr st ! i"
      using fit that by (simp add: fitted_def matvec_def)
    finally show ?thesis by (simp add: mult.commute)
  qed
  have "Xr st' = matvec X (hadamard (alpha st') (mu st'))"
    unfolding Xr' matvec_def by (rule map_cong) (simp_all add: row)
  then show ?thesis by (simp add: fitted_def st'_def)
qed

lemma pass_fitted:
  assumes "list_all (\<lambda>j. 0 \<le> j \<and> j < int (ncol X)) i"
    and "length (alpha st) = ncol X" "length (mu st) = ncol X" "length (Xr st) = nrow X"
    and "fitted X st"
  shows "fitted X (CoordinateUpdatePass X sigma sa logodds xy d st i)"
  using assms
proof (induction i arbitrary: st)
  case Nil
  then show ?case by simp
next
  case (Cons j js)
  from Cons.prems have "nat j < ncol X"
    by (simp add: nat_less_iff)
  with Cons.prems have "fitted X (CoordinateUpdateStep X sigma sa logodds xy d st (nat j))"
    by (intro step_fitted) simp_all
  with Cons.prems show ?case by (simp add: Cons.IH)
qed

section \<open>The logistic function\<close>

lemma Sigmoid_pos: "0 < Sigmoid x"
  using sigmoid_denominator_pos [of x] by (simp add: Sigmoid_def)

lemma Sigmoid_less_one: "Sigmoid x < 1"
  using sigmoid_denominator_pos [of x] by (simp add: Sigmoid_def)

lemma Sigmoid_strict: "x < y \<Longrightarrow> Sigmoid x < Sigmoid y"
proof -
  assume "x < y"
  then have "1 + exp (- y) < 1 + exp (- x)" by simp
  with sigmoid_denominator_pos [of y] have "1 / (1 + exp (- x)) < 1 / (1 + exp (- y))"
    by (intro divide_strict_left_mono mult_pos_pos sigmoid_denominator_pos) simp_all
  then show ?thesis by (simp add: Sigmoid_def)
qed

lemma Sigmoid_reflect: "Sigmoid x + Sigmoid (- x) = 1"
proof -
  have e: "exp (- x) = 1 / exp x" by (simp add: exp_minus field_simps)
  have "0 < exp x" by simp
  then have "1 + exp x \<noteq> 0" by (simp add: add_pos_pos pos_add_strict less_imp_neq [THEN not_sym])
  with \<open>0 < exp x\<close> show ?thesis
    by (simp add: Sigmoid_def e field_simps)
qed

section \<open>Faults under positive variances and non-negative \<open>d\<close>\<close>

lemma loop_body_fault:
  assumes "0 < sigma" "0 < sa" "list_all (\<lambda>x. 0 \<le> x) d"
    and "loop_body X sigma sa logodds xy d st j = Inl e"
  shows "e = OutOfBounds"
proof (cases "0 \<le> j \<and> j < int (length d)")
  case False
  with assms(4) show ?thesis
    by (auto simp: loop_body_def elem_at_def)
next
  case True
  then have "nat j < length d" by (simp add: nat_less_iff)
  then have "d ! nat j \<in> set d" by (rule nth_mem)
  with assms(3) have "0 \<le> d ! nat j" by (simp add: list_all_iff)
  with assms(2) have "0 \<le> sa * d ! nat j" by simp
  then have pos: "0 < sa * d ! nat j + 1" by simp
  then have nz: "sa * d ! nat j + 1 \<noteq> 0" by simp
  have s_nz: "sa * sigma / (sa * d ! nat j + 1) \<noteq> 0"
    using assms(1,2) nz by simp
  have ratio: "0 < sa * sigma / (sa * d ! nat j + 1) / (sa * sigma)"
    using assms(1,2) pos by simp
  have sig: "sigma \<noteq> 0" "sa \<noteq> 0" using assms(1,2) by simp_all
  show ?thesis
    using assms(4) True nz s_nz ratio sig
    by (simp add: loop_body_def elem_at_def posterior_variance_def fdiv_def flog_def
        column_def sum_times_def plus_scaled_def sigmoidcpp_Sigmoid Let_def
        split: if_splits)
qed

lemma pass_fault:
  assumes "0 < sigma" "0 < sa" "list_all (\<lambda>x. 0 \<le> x) d"
    and "varbvsnormupdate_cpp X sigma sa logodds xy d st i = Inl e"
  shows "e = OutOfBounds"
  using assms(4)
proof (induction i arbitrary: st)
  case Nil
  then show ?case by simp
next
  case (Cons j js)
  show ?case
  proof (cases "loop_body X sigma sa logodds xy d st j")
    case (Inl e')
    with Cons.prems have "e' = e" by simp
    with Inl assms(1-3) show ?thesis by (auto dest: loop_body_fault)
  next
    case (Inr st')
    with Cons.prems have "varbvsnormupdate_cpp X sigma sa logodds xy d st' js = Inl e"
      by simp
    then show ?thesis by (rule Cons.IH)
  qed
qed

section \<open>Entries outside the order\<close>

lemma pass_frame:
  assumes "list_all (\<lambda>j. 0 \<le> j) i" and "int k \<notin> set i"
  shows "alpha (CoordinateUpdatePass X sigma sa logodds xy d st i) ! k = alpha st ! k
       \<and> mu (CoordinateUpdatePass X sigma sa logodds xy d st i) ! k = mu st ! k"
  using assms
proof (induction i arbitrary: st)
  case Nil
  show ?case by simp
next
  case (Cons j js)
  from Cons.prems have "nat j \<noteq> k" by auto
  then have "alpha (CoordinateUpdateStep X sigma sa logodds xy d st (nat j)) ! k = alpha st ! k"
    "mu (CoordinateUpdateStep X sigma sa logodds xy d st (nat j)) ! k = mu st ! k"
    by (simp_all add: CoordinateUpdateStep_def Let_def)
  moreover from Cons.prems have "list_all (\<lambda>j. 0 \<le> j) js" "int k \<notin> set js" by simp_all
  ultimately show ?case using Cons.IH by simp
qed

section \<open>The same index twice in a row\<close>




section \<open>Numerical bounds for the worked scenario\<close>

lemma exp_two_fifths:
  "14918246 / 10000000 < exp (2/5 :: real)" "exp (2/5 :: real) < 14918248 / 10000000"
proof -
  obtain t :: real where t: "\<bar>t\<bar> \<le> \<bar>2/5\<bar>"
    and e: "exp (2/5 :: real) = (\<Sum>m<8. (2/5) ^ m / fact m) + exp t / fact 8 * (2/5) ^ 8"
    using Maclaurin_exp_le [of "2/5" 8] by blast
  have s: "(\<Sum>m<8. (2/5 :: real) ^ m / fact m) = 36712873 / 24609375"
    by (simp add: lessThan_nat_numeral fact_numeral power_divide)
  from t have "t \<le> 2/5" by simp
  then have "exp t \<le> exp (2/5 :: real)" by simp
  also have "\<dots> \<le> 1 + 2/5 + (2/5)\<^sup>2" by (rule exp_bound) simp_all
  finally have up: "exp t \<le> 39/25" by (simp add: power2_eq_square)
  have lo: "0 < exp t" by simp
  have e': "exp (2/5 :: real) = 36712873 / 24609375 + exp t * (2 / 123046875)"
    unfolding e s by (simp add: fact_numeral power_divide)
  from lo show "14918246 / 10000000 < exp (2/5 :: real)"
    unfolding e' by linarith
  from up show "exp (2/5 :: real) < 14918248 / 10000000"
    unfolding e' by linarith
qed

lemma exp_sixteen_fifths:
  "245324 / 10000 < exp (16/5 :: real)" "exp (16/5 :: real) < 245327 / 10000"
proof -
  have p: "exp (16/5 :: real) = exp (2/5) ^ 8"
    using exp_of_nat_mult [of 8 "2/5 :: real"] by simp
  have "(14918246 / 10000000 :: real) ^ 8 < exp (2/5) ^ 8"
    using exp_two_fifths(1) by (intro power_strict_mono) simp_all
  moreover have "(245324 / 10000 :: real) < (14918246 / 10000000) ^ 8"
    by (simp add: power_divide)
  ultimately show "245324 / 10000 < exp (16/5 :: real)"
    unfolding p by (rule less_trans [rotated])
  have "exp (2/5 :: real) ^ 8 < (14918248 / 10000000) ^ 8"
    using exp_two_fifths(2) by (intro power_strict_mono) simp_all
  moreover have "(14918248 / 10000000 :: real) ^ 8 < 245327 / 10000"
    by (simp add: power_divide)
  ultimately show "exp (16/5 :: real) < 245327 / 10000"
    unfolding p by (rule less_trans)
qed

lemma worked_alpha_bounds:
  "68896 / 100000 < Sigmoid ((ln (1/5) + 16/5) / 2)"
  "Sigmoid ((ln (1/5) + 16/5) / 2) < 688966 / 1000000"
proof -
  define E :: real where "E = exp (- ((ln (1/5) + 16/5) / 2))"
  define Y :: real where "Y = exp (16/5)"
  have Epos: "0 < E" by (simp add: E_def)
  have Ypos: "0 < Y" by (simp add: Y_def)
  have Y: "245324 / 10000 < Y" "Y < 245327 / 10000"
    unfolding Y_def by (rule exp_sixteen_fifths)+
  have arg: "2 * (- ((ln (1/5 :: real) + 16/5) / 2)) = ln 5 - 16/5"
  proof -
    have "2 * (- ((a + b) / 2)) = - a - b" for a b :: real
      by (simp add: field_simps)
    moreover have "ln (1/5 :: real) = - ln 5" by (simp add: ln_div)
    ultimately show ?thesis by (simp only: minus_minus)
  qed
  have "E\<^sup>2 = exp (2 * (- ((ln (1/5) + 16/5) / 2)))"
    unfolding E_def by (rule exp_double [symmetric])
  also have "\<dots> = exp (ln 5 - 16/5)"
    by (simp only: arg)
  also have "\<dots> = exp (ln 5) / Y"
    unfolding Y_def by (rule exp_diff)
  also have "\<dots> = 5 / Y"
    by simp
  finally have "E\<^sup>2 = 5 / Y" .
  then have E2: "E\<^sup>2 * Y = 5"
    using Ypos by simp
  have "(451452 / 1000000)\<^sup>2 * Y < 5"
    using Y(2) by (simp add: power2_eq_square)
  then have "(451452 / 1000000)\<^sup>2 * Y < E\<^sup>2 * Y" by (simp only: E2)
  then have "(451452 / 1000000)\<^sup>2 < E\<^sup>2"
    using Ypos by (simp only: mult_less_cancel_right_pos)
  then have l: "451452 / 1000000 < E"
    by (rule power2_less_imp_less) (use Epos in simp)
  have "5 < (451456 / 1000000)\<^sup>2 * Y"
    using Y(1) by (simp add: power2_eq_square)
  then have "E\<^sup>2 * Y < (451456 / 1000000)\<^sup>2 * Y" by (simp only: E2)
  then have "E\<^sup>2 < (451456 / 1000000)\<^sup>2"
    using Ypos by (simp only: mult_less_cancel_right_pos)
  then have u: "E < 451456 / 1000000"
    by (rule power2_less_imp_less) simp
  have S: "Sigmoid ((ln (1/5) + 16/5) / 2) = 1 / (1 + E)"
    unfolding Sigmoid_def E_def ..
  have E1: "0 < 1 + E" using Epos by simp
  have "68896 / 100000 * (1 + E) < 1" using u by (simp add: distrib_left)
  then show "68896 / 100000 < Sigmoid ((ln (1/5) + 16/5) / 2)"
    unfolding S using E1 by (simp only: pos_less_divide_eq)
  have "1 < 688966 / 1000000 * (1 + E)" using l by (simp add: distrib_left)
  then show "Sigmoid ((ln (1/5) + 16/5) / 2) < 688966 / 1000000"
    unfolding S using E1 by (simp only: pos_divide_less_eq)
qed

section \<open>Facts about the concrete inputs\<close>

lemma valid_one: "valid_input X_one 1 1 [0] [4] [4] zero_one [0]"
  by (simp add: valid_input_def X_one_def zero_one_def)

lemma valid_two: "valid_input X_two 1 1 [0, 0] [1, 2] [2, 1] start_two [1, 0, 1]"
  by (simp add: valid_input_def X_two_def start_two_def)

lemma fitted_two: "fitted X_two start_two"
  by (simp add: fitted_def matvec_def hadamard_def entry_def X_two_def start_two_def
      numeral_2_eq_2)

lemma worked_run:
  "varbvsnormupdate_cpp X_one 1 1 [0] [4] [4] zero_one [0] =
     Inr \<lparr>alpha = [Sigmoid ((ln (1/5) + 16/5) / 2)], mu = [4/5],
          Xr = [8/5 * Sigmoid ((ln (1/5) + 16/5) / 2)]\<rparr>"
  by (simp add: loop_body_def elem_at_def posterior_variance_def fdiv_def
      flog_def column_def sum_times_def plus_scaled_def sigmoidcpp_Sigmoid X_one_def zero_one_def
      power2_eq_square)

text \<open>
  Outside the data model the second update can differ: with the single column \<open>(2)\<close> and
  \<open>d = [1]\<close> instead of \<open>[4]\<close>, \<open>mu\<^sub>0\<close> is \<open>2\<close> after the order \<open>[0]\<close> and \<open>2 - 3 \<cdot> alpha\<^sub>0\<close>
  after \<open>[0, 0]\<close>.
\<close>

lemma valid_mismatch: "valid_input X_one 1 1 [0] [4] [1] zero_one [0, 0]"
  by (simp add: valid_input_def X_one_def zero_one_def)

lemma mismatch_not_gram: "\<not> gram_diag X_one [1]"
  by (simp add: gram_diag_def dot_def column_j_def entry_def X_one_def)

lemma first_mismatch:
  "CoordinateUpdateStep X_one 1 1 [0] [4] [1] zero_one 0 =
     \<lparr>alpha = [Sigmoid ((ln (1/2) + 8) / 2)], mu = [2], Xr = [4 * Sigmoid ((ln (1/2) + 8) / 2)]\<rparr>"
  by (simp add: CoordinateUpdateStep_def dot_def column_j_def entry_def X_one_def zero_one_def
      Let_def power2_eq_square)

lemma second_mismatch:
  "mu (CoordinateUpdateStep X_one 1 1 [0] [4] [1]
        \<lparr>alpha = [a], mu = [2], Xr = [4 * a]\<rparr> 0) = [2 - 3 * a]"
  by (simp add: CoordinateUpdateStep_def dot_def column_j_def entry_def X_one_def
      Let_def)

lemma mismatched_d_second_update_differs:
  "varbvsnormupdate_cpp X_one 1 1 [0] [4] [1] zero_one [0, 0] \<noteq>
     varbvsnormupdate_cpp X_one 1 1 [0] [4] [1] zero_one [0]"
proof -
  define a where "a = Sigmoid ((ln (1/2) + 8) / 2)"
  have v1: "valid_input X_one 1 1 [0] [4] [1] zero_one [0]"
    by (simp add: valid_input_def X_one_def zero_one_def)
  have "0 < a" unfolding a_def by (rule Sigmoid_pos)
  then have "[2 - 3 * a] \<noteq> [2]" by simp
  then have "mu (CoordinateUpdatePass X_one 1 1 [0] [4] [1] zero_one [0, 0]) \<noteq>
      mu (CoordinateUpdatePass X_one 1 1 [0] [4] [1] zero_one [0])"
    by (simp add: first_mismatch second_mismatch a_def)
  then show ?thesis
    unfolding valid_input_runs [OF v1] valid_input_runs [OF valid_mismatch] by auto
qed

section \<open>Claims\<close>

text \<open>
  C1 (as amended). For every valid input whose \<open>Xr\<close> equals
  \<open>DesignMatrix \<cdot> (alpha \<odot> mu)\<close> on entry, the pass returns, and the \<open>Xr\<close> it hands back
  equals \<open>DesignMatrix \<cdot> (alpha \<odot> mu)\<close> computed from the updated \<open>alpha\<close> and \<open>mu\<close>.
\<close>

theorem Xr_reflects_updated_state:
  assumes "valid_input X sigma sa logodds xy d st i" and "fitted X st"
  shows "\<exists>st'. varbvsnormupdate_cpp X sigma sa logodds xy d st i = Inr st'
           \<and> Xr st' = matvec X (hadamard (alpha st') (mu st'))"
proof -
  have "fitted X (CoordinateUpdatePass X sigma sa logodds xy d st i)"
    using assms by (intro pass_fitted) (simp_all add: valid_input_def list_all_iff)
  with valid_input_runs [OF assms(1)] show ?thesis
    by (simp add: fitted_def)
qed

theorem Xr_reflects_updated_state_witness:
  "valid_input X_two 1 1 [0, 0] [1, 2] [2, 1] start_two [1, 0, 1] \<and> fitted X_two start_two \<and>
   (\<exists>st'. varbvsnormupdate_cpp X_two 1 1 [0, 0] [1, 2] [2, 1] start_two [1, 0, 1] = Inr st'
      \<and> Xr st' = matvec X_two (hadamard (alpha st') (mu st')))"
  using Xr_reflects_updated_state [OF valid_two fitted_two] valid_two fitted_two by simp

text \<open>
  C1 as stated fails: sizes, signs and indices do not make \<open>Xr\<close> the fitted value on
  entry. In the worked scenario with \<open>Xr = [1]\<close> supplied instead of \<open>[0]\<close> the pass hands
  back an \<open>Xr\<close> that is off by the same \<open>1\<close>.
\<close>

theorem Xr_not_fitted_counterexample:
  "valid_input X_one 1 1 [0] [4] [4] \<lparr>alpha = [0], mu = [0], Xr = [1]\<rparr> [0] \<and>
   varbvsnormupdate_cpp X_one 1 1 [0] [4] [4] \<lparr>alpha = [0], mu = [0], Xr = [1]\<rparr> [0] =
     Inr \<lparr>alpha = [Sigmoid ((ln (1/5) + 4/5) / 2)], mu = [2/5],
          Xr = [1 + 4/5 * Sigmoid ((ln (1/5) + 4/5) / 2)]\<rparr> \<and>
   [1 + 4/5 * Sigmoid ((ln (1/5) + 4/5) / 2)] \<noteq>
     matvec X_one (hadamard [Sigmoid ((ln (1/5) + 4/5) / 2)] [2/5])"
  by (simp add: valid_input_def loop_body_def elem_at_def posterior_variance_def fdiv_def
      flog_def column_def sum_times_def plus_scaled_def sigmoidcpp_Sigmoid X_one_def
      power2_eq_square matvec_def hadamard_def entry_def)

text \<open>
  C2. For every valid input the pass returns the state obtained by taking the entries of
  UpdateOrder in sequence and applying to each the step of section 4.2: \<open>s\<^sub>j\<close>, then
  \<open>r\<^sub>j\<close> from the current state, then \<open>mu\<^sub>j\<close> from the \<open>Xr\<close> the earlier steps left, then
  \<open>alpha\<^sub>j\<close> from the new \<open>mu\<^sub>j\<close>, then the increment of \<open>Xr\<close>.
\<close>

theorem pass_is_sequence_of_steps:
  assumes "valid_input X sigma sa logodds xy d st i"
  shows "varbvsnormupdate_cpp X sigma sa logodds xy d st i =
           Inr (foldl (\<lambda>st j. CoordinateUpdateStep X sigma sa logodds xy d st (nat j)) st i)"
  using valid_input_runs [OF assms] by (simp add: CoordinateUpdatePass_def)

theorem pass_is_sequence_of_steps_witness:
  "valid_input X_two 1 1 [0, 0] [1, 2] [2, 1] start_two [1, 0, 1] \<and>
   varbvsnormupdate_cpp X_two 1 1 [0, 0] [1, 2] [2, 1] start_two [1, 0, 1] =
     Inr (foldl (\<lambda>st j. CoordinateUpdateStep X_two 1 1 [0, 0] [1, 2] [2, 1] st (nat j))
            start_two [1, 0, 1])"
  using pass_is_sequence_of_steps [OF valid_two] valid_two by simp

text \<open>
  C3 (as amended). The pass checks nothing at entry and raises no InvalidParameter:
  with vectors of the lengths the matrix fixes and every order entry in \<open>[0, p)\<close>, any
  non-zero \<open>sigma\<close> and \<open>sa\<close>, negative ones included, for which \<open>sa \<cdot> d\<^sub>j + 1\<close> is positive
  at the visited indices make the pass return normally, with the steps of section 4.2
  applied to \<open>alpha\<close>, \<open>mu\<close> and \<open>Xr\<close>.
\<close>

theorem runs_without_validation:
  assumes "sigma \<noteq> 0" and "sa \<noteq> 0"
    and "length xy = ncol X" and "length d = ncol X" and "length (alpha st) = ncol X"
    and "length (mu st) = ncol X" and "length logodds = ncol X"
    and "length (Xr st) = nrow X" and "length (elems X) = nrow X * ncol X"
    and "list_all (\<lambda>j. 0 \<le> j \<and> j < int (ncol X) \<and> 0 < sa * d ! nat j + 1) i"
  shows "\<exists>st'. varbvsnormupdate_cpp X sigma sa logodds xy d st i = Inr st'
           \<and> st' = CoordinateUpdatePass X sigma sa logodds xy d st i"
  using pass_runs [OF assms] by simp

theorem runs_without_validation_witness:
  "(- 1 :: real) \<noteq> 0 \<and> (1 :: real) \<noteq> 0 \<and>
   list_all (\<lambda>j. 0 \<le> j \<and> j < int (ncol X_one) \<and> 0 < 1 * [4 :: real] ! nat j + 1) [0, 0] \<and>
   (\<exists>st'. varbvsnormupdate_cpp X_one (- 1) 1 [0] [4] [4] zero_one [0, 0] = Inr st'
      \<and> st' = CoordinateUpdatePass X_one (- 1) 1 [0] [4] [4] zero_one [0, 0])"
proof -
  have h: "(- 1 :: real) \<noteq> 0" "(1 :: real) \<noteq> 0"
    "length [4 :: real] = ncol X_one" "length [4 :: real] = ncol X_one"
    "length (alpha zero_one) = ncol X_one" "length (mu zero_one) = ncol X_one"
    "length [0 :: real] = ncol X_one" "length (Xr zero_one) = nrow X_one"
    "length (elems X_one) = nrow X_one * ncol X_one"
    "list_all (\<lambda>j. 0 \<le> j \<and> j < int (ncol X_one) \<and> 0 < 1 * [4 :: real] ! nat j + 1) [0, 0]"
    by (simp_all add: X_one_def zero_one_def)
  from runs_without_validation [OF h] h show ?thesis by blast
qed

text \<open>
  C3 as stated fails: the worked scenario with \<open>sigma = -1\<close> raises nothing. The pass
  returns normally and has overwritten \<open>mu\<close>, \<open>alpha\<close> and \<open>Xr\<close>.
\<close>

theorem negative_sigma_counterexample:
  "varbvsnormupdate_cpp X_one (- 1) 1 [0] [4] [4] \<lparr>alpha = [0], mu = [0], Xr = [0]\<rparr> [0] =
     Inr \<lparr>alpha = [Sigmoid ((ln (1/5) - 16/5) / 2)], mu = [4/5],
          Xr = [8/5 * Sigmoid ((ln (1/5) - 16/5) / 2)]\<rparr> \<and>
   [4/5] \<noteq> [0 :: real] \<and> [Sigmoid ((ln (1/5) - 16/5) / 2)] \<noteq> [0]"
proof -
  have "0 < Sigmoid ((ln (1/5) - 16/5) / 2)" by (rule Sigmoid_pos)
  then show ?thesis
    by (simp add: loop_body_def elem_at_def posterior_variance_def fdiv_def
      flog_def column_def sum_times_def plus_scaled_def sigmoidcpp_Sigmoid X_one_def
      power2_eq_square)
qed

text \<open>
  C4 (as amended). In the worked scenario \<open>s = 0.2\<close>, \<open>r = 0\<close>, \<open>partial = 4\<close>, and the pass
  leaves \<open>mu = [0.8]\<close>, \<open>alpha = [sigmoid(0.5 \<cdot> (ln 0.2 + 3.2))]\<close>, which is \<open>0.6890\<close> to four
  decimal places, and \<open>Xr = [1.6 \<cdot> alpha]\<close>, which is \<open>1.1023\<close> to four decimal places.
\<close>

theorem worked_scenario:
  "posterior_variance 1 1 ([4] ! 0) = Inr (2 / 10) \<and>
   alpha zero_one ! 0 * mu zero_one ! 0 = 0 \<and>
   [4] ! 0 + [4] ! 0 * (alpha zero_one ! 0 * mu zero_one ! 0)
     - dot (column_j X_one 0) (Xr zero_one) = (4 :: real) \<and>
   varbvsnormupdate_cpp X_one 1 1 [0] [4] [4] zero_one [0] =
     Inr \<lparr>alpha = [Sigmoid (0.5 * (ln 0.2 + 3.2))], mu = [0.8],
          Xr = [1.6 * Sigmoid (0.5 * (ln 0.2 + 3.2))]\<rparr> \<and>
   \<bar>Sigmoid (0.5 * (ln 0.2 + 3.2)) - 0.6890\<bar> < 0.00005 \<and>
   \<bar>1.6 * Sigmoid (0.5 * (ln 0.2 + 3.2)) - 1.1023\<bar> < 0.00005"
proof -
  have t: "0.5 * (ln 0.2 + 3.2) = (ln (1/5) + 16/5) / (2 :: real)"
    by simp
  have s: "posterior_variance 1 1 ([4] ! 0) = Inr (2 / 10)"
    by (simp add: posterior_variance_def fdiv_def)
  have r: "alpha zero_one ! 0 * mu zero_one ! 0 = 0"
    by (simp add: zero_one_def)
  have p: "[4] ! 0 + [4] ! 0 * (alpha zero_one ! 0 * mu zero_one ! 0)
     - dot (column_j X_one 0) (Xr zero_one) = (4 :: real)"
    by (simp add: zero_one_def dot_def column_j_def X_one_def)
  have a: "\<bar>Sigmoid ((ln (1/5) + 16/5) / 2) - 0.6890\<bar> < 0.00005"
    using worked_alpha_bounds by simp
  have x: "\<bar>1.6 * Sigmoid ((ln (1/5) + 16/5) / 2) - 1.1023\<bar> < 0.00005"
    using worked_alpha_bounds by simp
  from s r p worked_run a x show ?thesis
    unfolding t by simp
qed

text \<open>
  C4 as stated fails in its last two numbers: the value of \<open>alpha\<close> is more than
  \<open>0.0002\<close> below \<open>0.6892\<close> and the value of \<open>Xr\<close> more than \<open>0.0003\<close> below \<open>1.1027\<close>.
\<close>

theorem worked_scenario_counterexample:
  "varbvsnormupdate_cpp X_one 1 1 [0] [4] [4] zero_one [0] =
     Inr \<lparr>alpha = [Sigmoid ((ln (1/5) + 16/5) / 2)], mu = [4/5],
          Xr = [8/5 * Sigmoid ((ln (1/5) + 16/5) / 2)]\<rparr> \<and>
   Sigmoid ((ln (1/5) + 16/5) / 2) < 0.6892 - 0.0002 \<and>
   8/5 * Sigmoid ((ln (1/5) + 16/5) / 2) < 1.1027 - 0.0003"
proof -
  have "Sigmoid ((ln (1/5) + 16/5) / 2) < 0.6892 - 0.0002"
    using worked_alpha_bounds(2) by simp
  moreover have "8/5 * Sigmoid ((ln (1/5) + 16/5) / 2) < 1.1027 - 0.0003"
    using worked_alpha_bounds(2) by simp
  ultimately show ?thesis using worked_run by simp
qed

text \<open>
  C5. \<open>sigmoidcpp\<close> returns \<open>1 / (1 + exp(-x))\<close> for every real \<open>x\<close>; the value lies
  strictly between 0 and 1, is strictly increasing in \<open>x\<close>, is \<open>1/2\<close> at \<open>0\<close>, and the
  values at \<open>x\<close> and \<open>-x\<close> add up to 1.
\<close>

theorem sigmoidcpp_contract:
  "sigmoidcpp x = Inr (Sigmoid x) \<and> Sigmoid x = 1 / (1 + exp (- x)) \<and>
   0 < Sigmoid x \<and> Sigmoid x < 1 \<and> strict_mono Sigmoid \<and> Sigmoid 0 = 1 / 2 \<and>
   Sigmoid x + Sigmoid (- x) = 1"
proof -
  have "strict_mono Sigmoid"
    by (rule strict_monoI) (rule Sigmoid_strict)
  moreover have "Sigmoid 0 = 1 / 2" by (simp add: Sigmoid_def)
  ultimately show ?thesis
    by (simp add: sigmoidcpp_Sigmoid Sigmoid_pos Sigmoid_less_one Sigmoid_reflect)
      (simp add: Sigmoid_def)
qed

theorem sigmoidcpp_contract_witness:
  "sigmoidcpp 1 = Inr (Sigmoid 1) \<and> Sigmoid 0 < Sigmoid 1 \<and> Sigmoid 1 < 1 \<and>
   Sigmoid 1 + Sigmoid (- 1) = 1"
proof -
  from sigmoidcpp_contract [of 1] have "strict_mono Sigmoid" by simp
  then have "Sigmoid 0 < Sigmoid 1" by (rule strict_monoD) simp
  with sigmoidcpp_contract [of 1] show ?thesis by simp
qed

text \<open>
  C6. With \<open>sigma > 0\<close>, \<open>sa > 0\<close> and every \<open>d\<^sub>j \<ge> 0\<close>, no divisor in the pass is zero
  (the only fault the pass can end in is an index out of range), every \<open>sa \<cdot> d\<^sub>j + 1\<close>
  is at least 1, and for \<open>d\<^sub>j = 0\<close> the posterior variance \<open>s\<^sub>j\<close> is exactly \<open>sa \<cdot> sigma\<close>.
\<close>

theorem no_division_by_zero:
  assumes "0 < sigma" and "0 < sa" and "list_all (\<lambda>x. 0 \<le> x) d"
  shows "varbvsnormupdate_cpp X sigma sa logodds xy d st i \<noteq> Inl DivByZero \<and>
         varbvsnormupdate_cpp X sigma sa logodds xy d st i \<noteq> Inl LogDomain \<and>
         (\<forall>j<length d. 1 \<le> sa * d ! j + 1 \<and>
            (d ! j = 0 \<longrightarrow> posterior_variance sa sigma (d ! j) = Inr (sa * sigma)))"
proof -
  have "1 \<le> sa * d ! j + 1" if "j < length d" for j
  proof -
    from that have "d ! j \<in> set d" by (rule nth_mem)
    with assms(3) have "0 \<le> d ! j" by (simp add: list_all_iff)
    with assms(2) have "0 \<le> sa * d ! j" by simp
    then show ?thesis by simp
  qed
  moreover have "posterior_variance sa sigma 0 = Inr (sa * sigma)"
    by (simp add: posterior_variance_def fdiv_def)
  moreover have "e = OutOfBounds"
    if "varbvsnormupdate_cpp X sigma sa logodds xy d st i = Inl e" for e
    using assms that by (rule pass_fault)
  then have "varbvsnormupdate_cpp X sigma sa logodds xy d st i \<noteq> Inl DivByZero"
    "varbvsnormupdate_cpp X sigma sa logodds xy d st i \<noteq> Inl LogDomain"
    by auto
  ultimately show ?thesis by simp
qed

theorem no_division_by_zero_witness:
  "(0::real) < 1 \<and> list_all (\<lambda>x. 0 \<le> x) [0, 4 :: real] \<and>
   varbvsnormupdate_cpp X_two 1 1 [0, 0] [1, 2] [0, 4] start_two [1, 0, 1] \<noteq> Inl DivByZero \<and>
   posterior_variance 1 1 ([0, 4] ! 0) = Inr (1 * 1)"
proof -
  have h: "(0::real) < 1" "list_all (\<lambda>x. 0 \<le> x) [0, 4 :: real]" by simp_all
  note r = no_division_by_zero [OF h(1) h(1) h(2), of X_two "[0, 0]" "[1, 2]" start_two "[1, 0, 1]"]
  from r have "\<forall>j<length [0, 4 :: real]. 1 \<le> 1 * [0, 4 :: real] ! j + 1 \<and>
      ([0, 4 :: real] ! j = 0 \<longrightarrow> posterior_variance 1 1 ([0, 4] ! j) = Inr (1 * 1))"
    by blast
  from this [rule_format, of 0] have "posterior_variance 1 1 ([0, 4] ! 0) = Inr (1 * 1)"
    by simp
  with r h show ?thesis by blast
qed

text \<open>
  C7. For every valid input and every predictor index \<open>k\<close> in \<open>[0, p)\<close> that does not occur
  in UpdateOrder, the pass returns with \<open>alpha\<^sub>k\<close> and \<open>mu\<^sub>k\<close> equal to their values at entry.
\<close>

theorem untouched_outside_order:
  assumes "valid_input X sigma sa logodds xy d st i" and "k < ncol X" and "int k \<notin> set i"
  shows "\<exists>st'. varbvsnormupdate_cpp X sigma sa logodds xy d st i = Inr st'
           \<and> alpha st' ! k = alpha st ! k \<and> mu st' ! k = mu st ! k"
proof -
  from assms(1) have "list_all (\<lambda>j. 0 \<le> j) i"
    by (simp add: valid_input_def list_all_iff)
  from pass_frame [OF this assms(3)] valid_input_runs [OF assms(1)] show ?thesis
    by simp
qed

theorem untouched_outside_order_witness:
  "valid_input X_two 1 1 [0, 0] [1, 2] [2, 1] start_two [1, 1] \<and> (0::nat) < ncol X_two \<and>
   int 0 \<notin> set [1, 1] \<and>
   (\<exists>st'. varbvsnormupdate_cpp X_two 1 1 [0, 0] [1, 2] [2, 1] start_two [1, 1] = Inr st'
      \<and> alpha st' ! 0 = alpha start_two ! 0 \<and> mu st' ! 0 = mu start_two ! 0)"
proof -
  have v: "valid_input X_two 1 1 [0, 0] [1, 2] [2, 1] start_two [1, 1]"
    by (simp add: valid_input_def X_two_def start_two_def)
  have k: "(0::nat) < ncol X_two" "int 0 \<notin> set [1, 1]"
    by (simp_all add: X_two_def)
  from untouched_outside_order [OF v k] v k show ?thesis by simp
qed




text \<open>
  C9. With an empty UpdateOrder the pass returns the state it was given: \<open>alpha\<close>, \<open>mu\<close>
  and \<open>Xr\<close> are unchanged.
\<close>

theorem empty_order_is_noop:
  "varbvsnormupdate_cpp X sigma sa logodds xy d st [] = Inr st"
  by simp

text \<open>
  C10. One step at index \<open>j\<close>, run with two vectors of prior log-odds and everything else
  the same: the new \<open>mu\<close> is the same, and the new \<open>alpha\<^sub>j\<close> is strictly larger for the
  strictly larger \<open>logodds\<^sub>j\<close> (hence never smaller for one that is not smaller).
\<close>

theorem alpha_increasing_in_logodds:
  assumes "valid_input X sigma sa lo1 xy d st [j]" and "valid_input X sigma sa lo2 xy d st [j]"
  shows "\<exists>s1 s2. varbvsnormupdate_cpp X sigma sa lo1 xy d st [j] = Inr s1
           \<and> varbvsnormupdate_cpp X sigma sa lo2 xy d st [j] = Inr s2
           \<and> mu s1 = mu s2
           \<and> (lo1 ! nat j < lo2 ! nat j \<longrightarrow> alpha s1 ! nat j < alpha s2 ! nat j)
           \<and> (lo1 ! nat j \<le> lo2 ! nat j \<longrightarrow> alpha s1 ! nat j \<le> alpha s2 ! nat j)"
proof -
  define s1 where "s1 = CoordinateUpdateStep X sigma sa lo1 xy d st (nat j)"
  define s2 where "s2 = CoordinateUpdateStep X sigma sa lo2 xy d st (nat j)"
  define m where "m = sa * sigma / (sa * d ! nat j + 1) / sigma *
     (xy ! nat j + d ! nat j * (alpha st ! nat j * mu st ! nat j)
       - dot (column_j X (nat j)) (Xr st))"
  define c where "c = 0.5 * (ln (sa * sigma / (sa * d ! nat j + 1) / (sa * sigma))
     + m\<^sup>2 / (sa * sigma / (sa * d ! nat j + 1)))"
  from assms(1) have j: "nat j < length (alpha st)" "nat j < length (mu st)"
    by (simp_all add: valid_input_def nat_less_iff)
  have r1: "varbvsnormupdate_cpp X sigma sa lo1 xy d st [j] = Inr s1"
    using valid_input_runs [OF assms(1)] by (simp add: s1_def)
  have r2: "varbvsnormupdate_cpp X sigma sa lo2 xy d st [j] = Inr s2"
    using valid_input_runs [OF assms(2)] by (simp add: s2_def)
  have same: "mu s1 = mu s2"
    by (simp add: s1_def s2_def CoordinateUpdateStep_def Let_def)
  have a1: "alpha s1 ! nat j = Sigmoid (lo1 ! nat j + c)"
    using j by (simp add: s1_def c_def m_def CoordinateUpdateStep_def Let_def)
  have a2: "alpha s2 ! nat j = Sigmoid (lo2 ! nat j + c)"
    using j by (simp add: s2_def c_def m_def CoordinateUpdateStep_def Let_def)
  have strict: "alpha s1 ! nat j < alpha s2 ! nat j" if "lo1 ! nat j < lo2 ! nat j"
    unfolding a1 a2 using that by (intro Sigmoid_strict) simp
  have weak: "alpha s1 ! nat j \<le> alpha s2 ! nat j" if "lo1 ! nat j \<le> lo2 ! nat j"
  proof (cases "lo1 ! nat j = lo2 ! nat j")
    case True
    then show ?thesis by (simp add: a1 a2)
  next
    case False
    with that have "lo1 ! nat j < lo2 ! nat j" by simp
    then show ?thesis using strict by simp
  qed
  from r1 r2 same strict weak show ?thesis by blast
qed

theorem alpha_increasing_in_logodds_witness:
  "valid_input X_one 1 1 [0] [4] [4] zero_one [0] \<and> valid_input X_one 1 1 [1] [4] [4] zero_one [0] \<and>
   [0 :: real] ! nat 0 < [1] ! nat 0 \<and>
   (\<exists>s1 s2. varbvsnormupdate_cpp X_one 1 1 [0] [4] [4] zero_one [0] = Inr s1
      \<and> varbvsnormupdate_cpp X_one 1 1 [1] [4] [4] zero_one [0] = Inr s2
      \<and> mu s1 = mu s2 \<and> alpha s1 ! nat 0 < alpha s2 ! nat 0)"
proof -
  have v: "valid_input X_one 1 1 [1] [4] [4] zero_one [0]"
    by (simp add: valid_input_def X_one_def zero_one_def)
  from alpha_increasing_in_logodds [OF valid_one v] valid_one v show ?thesis
    by simp blast
qed

end
